theory Spec2Isabelle
  imports Complex_Main
begin

section \<open>Python values and failures\<close>

text \<open>
  The module \<^verbatim>\<open>pyxem/signals/indexation_results.py\<close> reduces ranked matching
  candidates to one result per scan position. Every \<^verbatim>\<open>raise\<close> of the source, and
  every failure of a Python primitive it uses without a guard, is a value of
  \<open>error\<close>; a function that can fail returns \<open>error + 'a\<close> with \<open>Inl\<close> for the failure.
\<close>

datatype error = AttributeError | IndexError | ZeroDivisionError | ValueError string

text \<open>
  Floating point numbers are modelled by the reals. The quotient \<^verbatim>\<open>a / b\<close> of two
  Python floats raises \<^verbatim>\<open>ZeroDivisionError\<close> for \<^verbatim>\<open>b == 0\<close>; \<^verbatim>\<open>xs[i]\<close> for
  a non-negative \<^verbatim>\<open>i\<close> raises \<^verbatim>\<open>IndexError\<close> past the end; \<^verbatim>\<open>a or b\<close> on
  numbers is \<^verbatim>\<open>b\<close> exactly when \<^verbatim>\<open>a\<close> is zero.
\<close>

definition py_div :: "real \<Rightarrow> real \<Rightarrow> error + real" where
  "py_div a b = (if b = 0 then Inl ZeroDivisionError else Inr (a / b))"

definition py_index :: "'a list \<Rightarrow> nat \<Rightarrow> error + 'a" where
  "py_index xs i = (if i < length xs then Inr (xs ! i) else Inl IndexError)"

definition py_or :: "real \<Rightarrow> real \<Rightarrow> real" where
  "py_or a b = (if a = 0 then b else a)"

section \<open>Matching candidates\<close>

text \<open>
  One candidate is a named tuple with the entries the docstring of
  \<^verbatim>\<open>crystal_from_vector_matching\<close> lists: \<^verbatim>\<open>[phase, R, match_rate, ehkls, total_error]\<close>.
  The rotation matrix is only handed on to the Euler angle conversion, so its type is
  a parameter.
\<close>

datatype 'r match = OrientationResult
  (phase_index: int) (rotation_matrix: 'r) (match_rate: real)
  (error_hkls: "real list") (total_error: real)

text \<open>
  The argument \<^verbatim>\<open>z_matches\<close> is a one-dimensional object array. An entry of an object
  array is either a candidate or again an array (the signal container hands a position's
  candidates over boxed in an array of shape \<^verbatim>\<open>(1,)\<close>).
\<close>

datatype 'r pyobj = Candidate "'r match" | Array "'r pyobj list"

text \<open>The values stored in the metrics dictionary: a number or a sequence of numbers.\<close>

datatype mval = Num real | Seq "real list"

type_synonym metrics = "string \<rightharpoonup> mval"

text \<open>
  Lines 53-54: \<^verbatim>\<open>if z_matches.shape == (1,): z_matches = z_matches[0]\<close>. An array
  with a single entry is replaced by that entry, whatever the entry is.
\<close>

definition unwrap_single :: "'r pyobj list \<Rightarrow> 'r pyobj" where
  "unwrap_single z_matches =
     (if length z_matches = 1 then z_matches ! 0 else Array z_matches)"

text \<open>
  Everything after line 54 reads \<^verbatim>\<open>z_matches\<close> as an array whose entries carry the
  attributes of a candidate. Sorting by \<^verbatim>\<open>attrgetter("total_error")\<close> fails with
  \<^verbatim>\<open>AttributeError\<close> on anything else.
\<close>

fun as_candidate :: "'r pyobj \<Rightarrow> 'r match option" where
  "as_candidate (Candidate m) = Some m"
| "as_candidate (Array xs) = None"

fun candidates_of :: "'r pyobj \<Rightarrow> error + 'r match list" where
  "candidates_of (Candidate m) = Inl AttributeError"
| "candidates_of (Array xs) =
     (case those (map as_candidate xs) of
        None \<Rightarrow> Inl AttributeError
      | Some ms \<Rightarrow> Inr ms)"

text \<open>
  Modelled from the spec: \<^verbatim>\<open>get_nth_best_solution\<close> of
  \<^verbatim>\<open>pyxem.utils.indexation_utils\<close> is not among the sources. The specification's
  selector takes as best the candidate of globally minimal \<^verbatim>\<open>total_error\<close>, ties broken
  by input order, and as rank 1 the globally second best by \<^verbatim>\<open>total_error\<close> ignoring
  the phase; a candidate of a rank the set does not have is absent (\<open>None\<close>).
  \<open>sort_key\<close> is the stable insertion sort, as Python's \<^verbatim>\<open>sorted\<close> is stable.
\<close>

definition get_nth_best_solution :: "'r match list \<Rightarrow> nat \<Rightarrow> 'r match option" where
  "get_nth_best_solution single_match_result rank =
     (let ranked = sort_key total_error single_match_result
      in if rank < length ranked then Some (ranked ! rank) else None)"

section \<open>The per-pixel reducer\<close>

text \<open>Lines 69-72: the metrics taken over from the best match.\<close>

definition base_metrics :: "'r match \<Rightarrow> metrics" where
  "base_metrics best_match =
     [''match_rate'' \<mapsto> Num (match_rate best_match),
      ''ehkls'' \<mapsto> Seq (error_hkls best_match),
      ''total_error'' \<mapsto> Num (total_error best_match)]"

text \<open>Lines 75-77 and 89-91: the two list comprehensions over \<^verbatim>\<open>z_matches\<close>.\<close>

definition other_phase_matches :: "'r match list \<Rightarrow> 'r match \<Rightarrow> 'r match list" where
  "other_phase_matches z_matches best_match =
     filter (\<lambda>m. phase_index m \<noteq> phase_index best_match) z_matches"

definition same_phase_matches :: "'r match list \<Rightarrow> 'r match \<Rightarrow> 'r match list" where
  "same_phase_matches z_matches best_match =
     filter (\<lambda>m. phase_index m = phase_index best_match) z_matches"

text \<open>
  Lines 79-99. With candidates of another phase: the best of them gives
  \<^verbatim>\<open>phase_reliability\<close> (line 84, an unguarded quotient), and the second match is entry 1
  of the sorted candidates of the best phase (line 94, an unguarded index). Without:
  the dictionary is left as it is and the second match is rank 1 of the whole set.
  The result is the dictionary and the second match.
\<close>

definition reliability_references ::
  "'r match list \<Rightarrow> 'r match \<Rightarrow> metrics \<Rightarrow> error + (metrics \<times> 'r match option)" where
  "reliability_references z_matches best_match metrics =
     (let other = other_phase_matches z_matches best_match in
      if other \<noteq> [] then
        (case py_index (sort_key total_error other) 0 of
           Inl e \<Rightarrow> Inl e
         | Inr second_best_phase \<Rightarrow>
        (case py_div (total_error best_match) (total_error second_best_phase) of
           Inl e \<Rightarrow> Inl e
         | Inr q \<Rightarrow>
        (case py_index (sort_key total_error (same_phase_matches z_matches best_match)) 1 of
           Inl e \<Rightarrow> Inl e
         | Inr second_match \<Rightarrow>
             Inr (metrics(''phase_reliability'' \<mapsto> Num (100 * (1 - q))),
                  Some second_match))))
      else Inr (metrics, get_nth_best_solution z_matches 1))"

text \<open>
  Lines 101-103: \<^verbatim>\<open>100 * (1 - best_match.total_error / (second_match.total_error or 1.0))\<close>.
  Reading \<^verbatim>\<open>total_error\<close> of an absent second match is an \<^verbatim>\<open>AttributeError\<close>.
\<close>

definition orientation_reliability :: "'r match \<Rightarrow> 'r match option \<Rightarrow> error + real" where
  "orientation_reliability best_match second_match =
     (case second_match of
        None \<Rightarrow> Inl AttributeError
      | Some s \<Rightarrow>
          (case py_div (total_error best_match) (py_or (total_error s) 1) of
             Inl e \<Rightarrow> Inl e
           | Inr q \<Rightarrow> Inr (100 * (1 - q))))"

text \<open>
  The whole function. \<open>to_euler\<close> stands for \<^verbatim>\<open>np.rad2deg(mat2euler(R, "rzxz"))\<close> of the
  external library. The result is the array \<^verbatim>\<open>[phase, euler, metrics]\<close>.
\<close>

definition crystal_from_vector_matching ::
  "('r \<Rightarrow> 'e) \<Rightarrow> 'r pyobj list \<Rightarrow> error + (int \<times> 'e \<times> metrics)" where
  "crystal_from_vector_matching to_euler z_matches =
     (case candidates_of (unwrap_single z_matches) of
        Inl e \<Rightarrow> Inl e
      | Inr zs \<Rightarrow>
     (case get_nth_best_solution zs 0 of
        None \<Rightarrow> Inl AttributeError
      | Some best_match \<Rightarrow>
     (case reliability_references zs best_match (base_metrics best_match) of
        Inl e \<Rightarrow> Inl e
      | Inr (metrics, second_match) \<Rightarrow>
     (case orientation_reliability best_match second_match of
        Inl e \<Rightarrow> Inl e
      | Inr r \<Rightarrow>
          Inr (phase_index best_match, to_euler (rotation_matrix best_match),
               metrics(''orientation_reliability'' \<mapsto> Num r))))))"

subsection \<open>The reducer on a heap\<close>

text \<open>
  The same function once more, statement by statement, with the objects it touches in a
  heap: the array it is given by reference, the array \<^verbatim>\<open>results_array\<close> of line 57 and
  the dictionary \<^verbatim>\<open>metrics\<close> of line 69. \<^verbatim>\<open>results_array\<close> has three entries, unset
  at first, the last of which refers to the dictionary. Candidates are immutable named
  tuples and stay values. A heap is its cells and the next free reference.
\<close>

datatype ('r, 'e) heap_obj =
    NdArray "'r pyobj list"
  | ResultArray "int option" "'e option" "nat option"
  | DictObj metrics

record ('r, 'e) pyheap =
  cells :: "nat \<Rightarrow> ('r, 'e) heap_obj option"
  next_ref :: nat

text \<open>
  Creating an object takes the next free reference. An assignment to an entry or a key
  changes the object at a reference in place.
\<close>

definition new_object ::
  "('r, 'e) heap_obj \<Rightarrow> ('r, 'e) pyheap \<Rightarrow> nat \<times> ('r, 'e) pyheap" where
  "new_object ob h =
     (next_ref h, h\<lparr>cells := (cells h)(next_ref h \<mapsto> ob), next_ref := Suc (next_ref h)\<rparr>)"

definition update_object ::
  "nat \<Rightarrow> (('r, 'e) heap_obj \<Rightarrow> ('r, 'e) heap_obj) \<Rightarrow> ('r, 'e) pyheap \<Rightarrow> ('r, 'e) pyheap" where
  "update_object r f h =
     (case cells h r of None \<Rightarrow> h | Some ob \<Rightarrow> h\<lparr>cells := (cells h)(r \<mapsto> f ob)\<rparr>)"

fun set_entry0 :: "int \<Rightarrow> ('r, 'e) heap_obj \<Rightarrow> ('r, 'e) heap_obj" where
  "set_entry0 v (ResultArray a b c) = ResultArray (Some v) b c"
| "set_entry0 v ob = ob"

fun set_entry1 :: "'e \<Rightarrow> ('r, 'e) heap_obj \<Rightarrow> ('r, 'e) heap_obj" where
  "set_entry1 v (ResultArray a b c) = ResultArray a (Some v) c"
| "set_entry1 v ob = ob"

fun set_entry2 :: "nat \<Rightarrow> ('r, 'e) heap_obj \<Rightarrow> ('r, 'e) heap_obj" where
  "set_entry2 v (ResultArray a b c) = ResultArray a b (Some v)"
| "set_entry2 v ob = ob"

fun set_key :: "string \<Rightarrow> mval \<Rightarrow> ('r, 'e) heap_obj \<Rightarrow> ('r, 'e) heap_obj" where
  "set_key k v (DictObj m) = DictObj (m(k \<mapsto> v))"
| "set_key k v ob = ob"

text \<open>
  Lines 63-72: the two entries of \<^verbatim>\<open>results_array\<close>, the new dictionary and its three
  keys. The result is the reference of the dictionary.
\<close>

definition store_best_match ::
  "('r \<Rightarrow> 'e) \<Rightarrow> 'r match \<Rightarrow> nat \<Rightarrow> ('r, 'e) pyheap \<Rightarrow> nat \<times> ('r, 'e) pyheap" where
  "store_best_match to_euler best_match results_array h1 =
     (let h2 = update_object results_array (set_entry0 (phase_index best_match)) h1;
          h3 = update_object results_array
                 (set_entry1 (to_euler (rotation_matrix best_match))) h2
      in case new_object (DictObj Map.empty) h3 of (metrics, h4) \<Rightarrow>
     (let h5 = update_object metrics
                 (set_key ''match_rate'' (Num (match_rate best_match))) h4;
          h6 = update_object metrics
                 (set_key ''ehkls'' (Seq (error_hkls best_match))) h5;
          h7 = update_object metrics
                 (set_key ''total_error'' (Num (total_error best_match))) h6
      in (metrics, h7)))"

text \<open>
  Lines 75-99 as in \<open>reliability_references\<close>, with line 84 an assignment to the
  dictionary in the heap; it has taken place when the index of line 94 fails.
\<close>

definition second_references_heap ::
  "'r match list \<Rightarrow> 'r match \<Rightarrow> nat \<Rightarrow> ('r, 'e) pyheap
     \<Rightarrow> (error + 'r match option) \<times> ('r, 'e) pyheap" where
  "second_references_heap z_matches best_match metrics h =
     (let other = other_phase_matches z_matches best_match in
      if other \<noteq> [] then
        (case py_index (sort_key total_error other) 0 of
           Inl e \<Rightarrow> (Inl e, h)
         | Inr second_best_phase \<Rightarrow>
        (case py_div (total_error best_match) (total_error second_best_phase) of
           Inl e \<Rightarrow> (Inl e, h)
         | Inr q \<Rightarrow>
            (let h1 = update_object metrics
                        (set_key ''phase_reliability'' (Num (100 * (1 - q)))) h
             in (case py_index
                        (sort_key total_error (same_phase_matches z_matches best_match)) 1 of
                   Inl e \<Rightarrow> (Inl e, h1)
                 | Inr second_match \<Rightarrow> (Inr (Some second_match), h1)))))
      else (Inr (get_nth_best_solution z_matches 1), h))"

text \<open>Lines 101-105: the last key of the dictionary and the last entry of the array.\<close>

definition store_orientation_reliability ::
  "nat \<Rightarrow> nat \<Rightarrow> real \<Rightarrow> ('r, 'e) pyheap \<Rightarrow> ('r, 'e) pyheap" where
  "store_orientation_reliability results_array metrics r h8 =
     (let h9 = update_object metrics (set_key ''orientation_reliability'' (Num r)) h8
      in update_object results_array (set_entry2 metrics) h9)"

text \<open>
  The function: reading the shape of something that is no array fails before anything
  is created (line 53); the expressions are those of \<open>crystal_from_vector_matching\<close>;
  a failure leaves the heap as it is at that statement. The result is the reference of
  \<^verbatim>\<open>results_array\<close>.
\<close>

definition crystal_from_vector_matching_heap ::
  "('r \<Rightarrow> 'e) \<Rightarrow> nat \<Rightarrow> ('r, 'e) pyheap \<Rightarrow> (error + nat) \<times> ('r, 'e) pyheap" where
  "crystal_from_vector_matching_heap to_euler z_ref h0 =
     (case cells h0 z_ref of
        Some (NdArray z_matches) \<Rightarrow>
          (case new_object (ResultArray None None None) h0 of (results_array, h1) \<Rightarrow>
          (case candidates_of (unwrap_single z_matches) of
             Inl e \<Rightarrow> (Inl e, h1)
           | Inr zs \<Rightarrow>
          (case get_nth_best_solution zs 0 of
             None \<Rightarrow> (Inl AttributeError, h1)
           | Some best_match \<Rightarrow>
          (case store_best_match to_euler best_match results_array h1 of (metrics, h7) \<Rightarrow>
          (case second_references_heap zs best_match metrics h7 of
             (Inl e, h8) \<Rightarrow> (Inl e, h8)
           | (Inr second_match, h8) \<Rightarrow>
          (case orientation_reliability best_match second_match of
             Inl e \<Rightarrow> (Inl e, h8)
           | Inr r \<Rightarrow>
               (Inr results_array,
                store_orientation_reliability results_array metrics r h8)))))))
      | _ \<Rightarrow> (Inl AttributeError, h0))"

text \<open>
  What a caller sees of an outcome: the failure, or the phase, the Euler angles and the
  contents of the dictionary read through the returned reference.
\<close>

definition result_contents ::
  "('r, 'e) pyheap \<Rightarrow> nat \<Rightarrow> (int \<times> 'e \<times> metrics) option" where
  "result_contents h r =
     (case cells h r of
        Some (ResultArray (Some p) (Some e) (Some d)) \<Rightarrow>
          (case cells h d of Some (DictObj m) \<Rightarrow> Some (p, e, m) | _ \<Rightarrow> None)
      | _ \<Rightarrow> None)"

definition observe ::
  "(error + nat) \<times> ('r, 'e) pyheap \<Rightarrow> (error + (int \<times> 'e \<times> metrics)) option" where
  "observe outcome =
     (case outcome of
        (Inl e, h) \<Rightarrow> Some (Inl e)
      | (Inr r, h) \<Rightarrow> map_option Inr (result_contents h r))"

section \<open>Template matching results\<close>

text \<open>
  A two-dimensional array is the list of its rows. \<^verbatim>\<open>np.argmax\<close> returns the first
  index of the greatest entry and raises \<^verbatim>\<open>ValueError\<close> on an empty sequence.
\<close>

fun argmax_list :: "real list \<Rightarrow> nat" where
  "argmax_list [] = 0"
| "argmax_list [v] = 0"
| "argmax_list (v # w # ws) =
     (let j = argmax_list (w # ws) in if (w # ws) ! j \<le> v then 0 else Suc j)"

definition np_argmax :: "real list \<Rightarrow> error + nat" where
  "np_argmax xs =
     (if xs = [] then Inl (ValueError ''attempt to get argmax of an empty sequence'')
      else Inr (argmax_list xs))"

text \<open>
  \<^verbatim>\<open>_get_best_match(z) = z[:, np.argmax(z[-1, :])]\<close>: the last row is the score row
  (an array without rows has no last row), and the result is the column of its
  greatest entry.
\<close>

definition get_best_match :: "real list list \<Rightarrow> error + real list" where
  "get_best_match z =
     (if z = [] then Inl IndexError
      else (case np_argmax (last z) of
              Inl e \<Rightarrow> Inl e
            | Inr j \<Rightarrow> Inr (map (\<lambda>row. row ! j) z)))"

text \<open>
  The signal container of the external library: the navigation shape \<open>(rows, columns)\<close>
  and the data of the positions in row-major order. \<^verbatim>\<open>map\<close> applies a function at
  every position and keeps the shape; a failure at a position is the failure of the map.
\<close>

record 'a signal =
  nav_shape :: "nat \<times> nat"
  positions :: "'a list"

fun map_positions :: "('a \<Rightarrow> error + 'b) \<Rightarrow> 'a list \<Rightarrow> error + 'b list" where
  "map_positions f [] = Inr []"
| "map_positions f (p # ps) =
     (case f p of
        Inl e \<Rightarrow> Inl e
      | Inr v \<Rightarrow> (case map_positions f ps of Inl e \<Rightarrow> Inl e | Inr vs \<Rightarrow> Inr (v # vs)))"

definition map_signal :: "('a \<Rightarrow> error + 'b) \<Rightarrow> 'a signal \<Rightarrow> error + 'b signal" where
  "map_signal f s =
     (case map_positions f (positions s) of
        Inl e \<Rightarrow> Inl e
      | Inr vs \<Rightarrow> Inr \<lparr>nav_shape = nav_shape s, positions = vs\<rparr>)"

text \<open>\<^verbatim>\<open>_s.isig[k].data.flatten()\<close>: channel \<open>k\<close> of every position, in row-major order.\<close>

definition isig_flatten :: "nat \<Rightarrow> real list signal \<Rightarrow> real list" where
  "isig_flatten k s = map (\<lambda>v. v ! k) (positions s)"

text \<open>
  Lines 193-196. \<^verbatim>\<open>np.indices((h, w))\<close> is the pair of grids holding at row \<open>r\<close> and
  column \<open>c\<close> the row index \<open>r\<close> and the column index \<open>c\<close>; \<^verbatim>\<open>flatten\<close> concatenates the
  rows. \<^verbatim>\<open>x\<close> is the flattened grid 1, \<^verbatim>\<open>y\<close> the flattened grid 0.
\<close>

definition np_indices :: "nat \<times> nat \<Rightarrow> nat list list \<times> nat list list" where
  "np_indices shape =
     (case shape of (h, w) \<Rightarrow>
        (map (\<lambda>r. map (\<lambda>c. r) [0..<w]) [0..<h],
         map (\<lambda>r. map (\<lambda>c. c) [0..<w]) [0..<h]))"

definition flatten :: "'a list list \<Rightarrow> 'a list" where
  "flatten rows = concat rows"

definition navigation_placements :: "nat \<times> nat \<Rightarrow> nat list \<times> nat list" where
  "navigation_placements shape =
     (let xy = np_indices shape in (flatten (snd xy), flatten (fst xy)))"

text \<open>
  The arguments handed to the external \<^verbatim>\<open>CrystalMap\<close> constructor. \<open>from_euler\<close> stands
  for \<^verbatim>\<open>Rotation.from_euler(euler, convention="bunge", direction="crystal2lab")\<close>.
\<close>

record 'q crystal_map =
  cm_rotations :: 'q
  cm_phase_id :: "real list"
  cm_x :: "nat list"
  cm_y :: "nat list"
  cm_prop :: "string \<rightharpoonup> real list"

definition to_crystal_map ::
  "((real \<times> real \<times> real) list \<Rightarrow> 'q) \<Rightarrow> real list list signal \<Rightarrow> error + 'q crystal_map" where
  "to_crystal_map from_euler data =
     (case map_signal get_best_match data of
        Inl e \<Rightarrow> Inl e
      | Inr s \<Rightarrow>
          (let phase_id = isig_flatten 0 s;
               alpha = isig_flatten 1 s;
               beta = isig_flatten 2 s;
               gamma = isig_flatten 3 s;
               score = isig_flatten 4 s;
               xs = fst (navigation_placements (nav_shape s));
               ys = snd (navigation_placements (nav_shape s));
               euler = zip alpha (zip beta gamma)
           in Inr \<lparr>cm_rotations = from_euler euler, cm_phase_id = phase_id,
                   cm_x = xs, cm_y = ys, cm_prop = [''score'' \<mapsto> score]\<rparr>))"

section \<open>Vector matching results\<close>

text \<open>
  \<^verbatim>\<open>VectorMatchingResults.to_crystal_map\<close>: the first statement of the body is
  \<^verbatim>\<open>raise ValueError("Currently under development")\<close>. The statements behind it start
  with the map of \<^verbatim>\<open>crystal_from_vector_matching\<close> over the positions; \<open>assemble\<close>
  stands for what follows the map.
\<close>

definition raise :: "error \<Rightarrow> error + unit" where
  "raise e = Inl e"

definition vector_to_crystal_map ::
  "('r \<Rightarrow> 'e) \<Rightarrow> ((int \<times> 'e \<times> metrics) signal \<Rightarrow> error + 'm) \<Rightarrow> 'r pyobj list signal
     \<Rightarrow> error + 'm" where
  "vector_to_crystal_map to_euler assemble self =
     (case raise (ValueError ''Currently under development'') of
        Inl e \<Rightarrow> Inl e
      | Inr u \<Rightarrow>
          (case map_signal (crystal_from_vector_matching to_euler) self of
             Inl e \<Rightarrow> Inl e
           | Inr s \<Rightarrow> assemble s))"

text \<open>
  \<^verbatim>\<open>get_indexed_diffraction_vectors(self, vectors, overwrite=False)\<close>. The vectors object
  is passed by reference and mutated in place, so the objects live in a heap and the
  function takes and returns a reference. Its attribute \<^verbatim>\<open>hkls\<close> is \<open>None\<close> or an
  assignment; all other attributes are the extension of the record. The tests
  \<^verbatim>\<open>overwrite is False\<close> and \<^verbatim>\<open>overwrite is True\<close> are identity tests, which an
  argument that is no boolean fails both. \<^verbatim>\<open>warn\<close> appends to the warnings issued.
\<close>

datatype pyarg = PyFalse | PyTrue | PyOther

record 'h diffraction_vectors =
  hkls :: "'h option"

record ('h, 'z) world =
  heap :: "nat \<Rightarrow> ('h, 'z) diffraction_vectors_scheme"
  warnings :: "string list"

definition hkls_warning :: string where
  "hkls_warning =
     ''The vectors supplied are already associated with hkls set overwrite=True to replace these hkls.''"

definition get_indexed_diffraction_vectors ::
  "'h option \<Rightarrow> ('h, 'z) world \<Rightarrow> nat \<Rightarrow> pyarg \<Rightarrow> nat \<times> ('h, 'z) world" where
  "get_indexed_diffraction_vectors self_hkls w vectors overwrite =
     (if overwrite = PyFalse then
        (if hkls (heap w vectors) \<noteq> None then
           (vectors, w\<lparr>warnings := warnings w @ [hkls_warning]\<rparr>)
         else
           (vectors, w\<lparr>heap := (heap w)(vectors := (heap w vectors)\<lparr>hkls := self_hkls\<rparr>)\<rparr>))
      else if overwrite = PyTrue then
        (vectors, w\<lparr>heap := (heap w)(vectors := (heap w vectors)\<lparr>hkls := self_hkls\<rparr>)\<rparr>)
      else (vectors, w))"

section \<open>Properties of the per-pixel reducer\<close>

lemmas reducer_defs =
  crystal_from_vector_matching_def unwrap_single_def get_nth_best_solution_def
  reliability_references_def orientation_reliability_def other_phase_matches_def
  same_phase_matches_def py_div_def py_index_def py_or_def

text \<open>
  What the dictionary holds under \<^verbatim>\<open>phase_reliability\<close> once lines 79-99 have run
  without a failure.
\<close>

lemma reliability_references_phase:
  assumes "reliability_references zs best m0 = Inr (m, s)"
  shows "m ''phase_reliability'' =
           (if other_phase_matches zs best = [] then m0 ''phase_reliability''
            else Some (Num (100 * (1 - total_error best /
                   total_error (sort_key total_error (other_phase_matches zs best) ! 0)))))"
proof (cases "other_phase_matches zs best = []")
  case True
  with assms show ?thesis by (simp add: reliability_references_def)
next
  case False
  then have len: "0 < length (sort_key total_error (other_phase_matches zs best))"
    by simp
  from assms False len show ?thesis
    by (auto simp add: reliability_references_def py_index_def py_div_def Let_def
        split: sum.splits if_splits)
qed

text \<open>
  Whenever the reducer returns, the returned dictionary has \<^verbatim>\<open>phase_reliability\<close>
  exactly when another phase is represented, with the value of line 84.
\<close>

lemma phase_reliability_returned:
  assumes "candidates_of (unwrap_single z_matches) = Inr zs"
    and "get_nth_best_solution zs 0 = Some best"
    and "crystal_from_vector_matching to_euler z_matches = Inr (p, e, m)"
  shows "m ''phase_reliability'' =
           (if other_phase_matches zs best = [] then None
            else Some (Num (100 * (1 - total_error best /
                   total_error (sort_key total_error (other_phase_matches zs best) ! 0)))))"
proof -
  from assms obtain m1 s r where
    rr: "reliability_references zs best (base_metrics best) = Inr (m1, s)"
    and m: "m = m1(''orientation_reliability'' \<mapsto> Num r)"
    by (auto simp add: crystal_from_vector_matching_def split: sum.splits)
  have "base_metrics best ''phase_reliability'' = None"
    by (simp add: base_metrics_def)
  with reliability_references_phase [OF rr] m show ?thesis by simp
qed

text \<open>
  When the reducer returns: with another phase present, if the best phase has two
  candidates and the quotient of line 84 is defined; with one phase, if there are two
  candidates.
\<close>

lemma returns_with_two_phases:
  assumes "candidates_of (unwrap_single z_matches) = Inr zs"
    and "get_nth_best_solution zs 0 = Some best"
    and "other_phase_matches zs best \<noteq> []"
    and "total_error (sort_key total_error (other_phase_matches zs best) ! 0) \<noteq> 0"
    and "2 \<le> length (same_phase_matches zs best)"
  shows "\<exists>m. crystal_from_vector_matching to_euler z_matches =
               Inr (phase_index best, to_euler (rotation_matrix best), m)"
proof -
  from assms(3) have "0 < length (sort_key total_error (other_phase_matches zs best))"
    by simp
  with assms show ?thesis
    by (simp add: crystal_from_vector_matching_def reliability_references_def
        orientation_reliability_def py_index_def py_div_def py_or_def)
qed

lemma returns_with_one_phase:
  assumes "candidates_of (unwrap_single z_matches) = Inr zs"
    and "get_nth_best_solution zs 0 = Some best"
    and "other_phase_matches zs best = []"
    and "2 \<le> length zs"
  shows "\<exists>m. crystal_from_vector_matching to_euler z_matches =
               Inr (phase_index best, to_euler (rotation_matrix best), m)"
  using assms
  by (simp add: crystal_from_vector_matching_def reliability_references_def
      orientation_reliability_def get_nth_best_solution_def py_div_def py_or_def)

text \<open>
  The index of line 94 fails on every set in which another phase is represented and the
  best phase has a single candidate.
\<close>

lemma index_error_when_best_phase_has_one_candidate:
  assumes "candidates_of (unwrap_single z_matches) = Inr zs"
    and "get_nth_best_solution zs 0 = Some best"
    and "other_phase_matches zs best \<noteq> []"
    and "total_error (sort_key total_error (other_phase_matches zs best) ! 0) \<noteq> 0"
    and "length (same_phase_matches zs best) < 2"
  shows "crystal_from_vector_matching to_euler z_matches = Inl IndexError"
proof -
  from assms(3) have "0 < length (sort_key total_error (other_phase_matches zs best))"
    by simp
  with assms show ?thesis
    by (simp add: crystal_from_vector_matching_def reliability_references_def
        py_index_def py_div_def)
qed

text \<open>
  Claim C1: where the best phase contributes a single candidate, the second match for
  \<^verbatim>\<open>orientation_reliability\<close> is to be the globally second best candidate, without a
  failure and without an index out of range. The code does not do so. For the set
  \<open>[{phase 0, error 0.1}, {phase 1, error 0.2}]\<close> the best match is the candidate of
  phase 0, its phase has this one candidate, a globally second best candidate exists,
  and the reducer fails with \<^verbatim>\<open>IndexError\<close> at the index 1 of line 94.
\<close>

theorem single_candidate_best_phase_index_error:
  "get_nth_best_solution
     [OrientationResult 0 () 1 [] (1/10), OrientationResult 1 () 1 [] (2/10)] 0
     = Some (OrientationResult 0 () 1 [] (1/10))
   \<and> same_phase_matches
       [OrientationResult 0 () 1 [] (1/10), OrientationResult 1 () 1 [] (2/10)]
       (OrientationResult 0 () 1 [] (1/10))
     = [OrientationResult 0 () 1 [] (1/10)]
   \<and> get_nth_best_solution
       [OrientationResult 0 () 1 [] (1/10), OrientationResult 1 () 1 [] (2/10)] 1
     = Some (OrientationResult 1 () 1 [] (2/10))
   \<and> crystal_from_vector_matching (\<lambda>R. R)
       [Candidate (OrientationResult 0 () 1 [] (1/10)),
        Candidate (OrientationResult 1 () 1 [] (2/10))]
     = Inl IndexError"
  by (simp add: reducer_defs)

text \<open>
  Claim C2: for a set with two phases the metrics dictionary is to carry
  \<^verbatim>\<open>phase_reliability = 100 * (1 - best.total_error / second_best_cross_phase.total_error)\<close>.
  For the set \<open>[{phase 0, error 0.1}, {phase 1, error 0.2}, {phase 1, error 0.3}]\<close> the
  quotient of line 84 is \<open>1/2\<close>, so the value would be 50, but the reducer fails with
  \<^verbatim>\<open>IndexError\<close> at line 94 and hands no dictionary to its caller.
\<close>

theorem two_phases_no_metrics_returned:
  "py_div (1/10) (2/10) = Inr (1/2)
   \<and> crystal_from_vector_matching (\<lambda>R. R)
       [Candidate (OrientationResult 0 () 1 [] (1/10)),
        Candidate (OrientationResult 1 () 1 [] (2/10)),
        Candidate (OrientationResult 1 () 1 [] (3/10))]
     = Inl IndexError"
  by (simp add: reducer_defs)

text \<open>
  Claim C3: for a set of exactly one candidate the reducer is to return a result without
  \<^verbatim>\<open>phase_reliability\<close>. The code fails on every such set, whether the array holds the
  candidate itself (line 54 then replaces the array by the candidate) or holds the boxed
  array of the one candidate (rank 1 is then absent and line 102 reads its
  \<^verbatim>\<open>total_error\<close>).
\<close>

theorem single_candidate_fails:
  "crystal_from_vector_matching to_euler [Candidate c] = Inl AttributeError
   \<and> crystal_from_vector_matching to_euler [Array [Candidate c]] = Inl AttributeError"
  by (simp add: reducer_defs)

text \<open>
  What the guard of line 102 does achieve. Where lines 59-99 do not fail (with another
  phase: its best error is not zero and the best phase has two candidates; with one
  phase: two candidates), the reducer returns and \<^verbatim>\<open>orientation_reliability\<close> is
  \<open>100 * (1 - best.total_error / d)\<close>, where the second match \<open>s\<close> is entry 1 of the
  sorted candidates of the best phase, or of the whole set when it has one phase, and
  \<open>d\<close> is 1 if the \<^verbatim>\<open>total_error\<close> of \<open>s\<close> is zero and that \<^verbatim>\<open>total_error\<close> otherwise.
\<close>

lemma orientation_reliability_when_selected:
  assumes "candidates_of (unwrap_single z_matches) = Inr zs"
    and "get_nth_best_solution zs 0 = Some best"
    and "other_phase_matches zs best \<noteq> [] \<longrightarrow>
           total_error (sort_key total_error (other_phase_matches zs best) ! 0) \<noteq> 0
           \<and> 2 \<le> length (same_phase_matches zs best)
           \<and> s = sort_key total_error (same_phase_matches zs best) ! 1"
    and "other_phase_matches zs best = [] \<longrightarrow>
           2 \<le> length zs \<and> s = sort_key total_error zs ! 1"
  shows "\<exists>m. crystal_from_vector_matching to_euler z_matches =
               Inr (phase_index best, to_euler (rotation_matrix best), m)
             \<and> m ''orientation_reliability'' =
                 Some (Num (100 * (1 - total_error best /
                        (if total_error s = 0 then 1 else total_error s))))"
proof (cases "other_phase_matches zs best = []")
  case True
  with assms show ?thesis
    by (simp add: crystal_from_vector_matching_def reliability_references_def
        orientation_reliability_def get_nth_best_solution_def py_div_def py_or_def)
next
  case False
  then have "0 < length (sort_key total_error (other_phase_matches zs best))"
    by simp
  with False assms show ?thesis
    by (simp add: crystal_from_vector_matching_def reliability_references_def
        orientation_reliability_def py_index_def py_div_def py_or_def)
qed

text \<open>
  Claim C4: for every set whose second best candidate of the best phase has
  \<^verbatim>\<open>total_error\<close> zero, the reducer is to yield
  \<open>orientation_reliability = 100 * (1 - best.total_error / 1.0)\<close> and never to raise a
  division by zero. The code does not do so. For the set
  \<open>[{phase 0, error 0}, {phase 0, error 0}, {phase 1, error 0}]\<close> the best match is the
  first candidate, the second candidate of its phase has error zero, the guarded
  quotient of line 102 would give 100, but the unguarded quotient of line 84 divides by
  the error zero of the candidate of phase 1 and the reducer fails with
  \<^verbatim>\<open>ZeroDivisionError\<close>.
\<close>

theorem zero_second_error_division_by_zero:
  "get_nth_best_solution
     [OrientationResult 0 () 1 [] 0, OrientationResult 0 () (1/2) [] 0,
      OrientationResult 1 () 1 [] 0] 0
     = Some (OrientationResult 0 () 1 [] 0)
   \<and> sort_key total_error
       (same_phase_matches
          [OrientationResult 0 () 1 [] 0, OrientationResult 0 () (1/2) [] 0,
           OrientationResult 1 () 1 [] 0]
          (OrientationResult 0 () 1 [] 0)) ! 1
     = OrientationResult 0 () (1/2) [] 0
   \<and> total_error (OrientationResult 0 () (1/2) [] 0) = 0
   \<and> orientation_reliability (OrientationResult 0 () 1 [] 0)
       (Some (OrientationResult 0 () (1/2) [] 0)) = Inr 100
   \<and> crystal_from_vector_matching (\<lambda>R. R)
       [Candidate (OrientationResult 0 () 1 [] 0),
        Candidate (OrientationResult 0 () (1/2) [] 0),
        Candidate (OrientationResult 1 () 1 [] 0)]
     = Inl ZeroDivisionError"
  by (simp add: reducer_defs)

subsection \<open>Properties of the reducer on a heap\<close>

text \<open>
  The function on the heap computes what \<open>crystal_from_vector_matching\<close> computes, and
  it writes to the two objects it has created only.
\<close>

lemma second_references_heap_fst:
  "fst (second_references_heap zs best d h) = map_sum id snd (reliability_references zs best m)"
  by (simp add: second_references_heap_def reliability_references_def Let_def
      split: sum.splits)

lemma second_references_heap_cells:
  assumes "cells h d = Some (DictObj m)"
    and "reliability_references zs best m = Inr (m', s)"
  shows "cells (snd (second_references_heap zs best d h)) = (cells h)(d \<mapsto> DictObj m')"
    and "next_ref (snd (second_references_heap zs best d h)) = next_ref h"
  using assms
  by (auto simp add: second_references_heap_def reliability_references_def Let_def
      update_object_def split: sum.splits if_splits)

lemma second_references_heap_frame:
  "next_ref (snd (second_references_heap zs best d h)) = next_ref h"
  "r \<noteq> d \<Longrightarrow> cells (snd (second_references_heap zs best d h)) r = cells h r"
  by (auto simp add: second_references_heap_def Let_def
      update_object_def split: sum.splits if_splits option.splits)

lemma store_best_match_effect:
  assumes "cells h res = Some (ResultArray a b c)" and "res < next_ref h"
  shows "fst (store_best_match to_euler best res h) = next_ref h"
    and "next_ref (snd (store_best_match to_euler best res h)) = Suc (next_ref h)"
    and "cells (snd (store_best_match to_euler best res h)) =
           (cells h)(res \<mapsto> ResultArray (Some (phase_index best))
                                 (Some (to_euler (rotation_matrix best))) c,
                     next_ref h \<mapsto> DictObj (base_metrics best))"
  using assms
  by (simp_all add: store_best_match_def new_object_def update_object_def Let_def
      base_metrics_def)

lemma heap_refines_reducer:
  assumes "cells h z_ref = Some (NdArray z_matches)"
  shows "observe (crystal_from_vector_matching_heap to_euler z_ref h)
           = Some (crystal_from_vector_matching to_euler z_matches)"
proof -
  let ?n = "next_ref h"
  obtain h1 where no: "new_object (ResultArray None None None) h = (?n, h1)"
    and c1: "cells h1 ?n = Some (ResultArray None None None)" and n1: "next_ref h1 = Suc ?n"
    by (simp add: new_object_def)
  show ?thesis
  proof (cases "candidates_of (unwrap_single z_matches)")
    case (Inl e)
    with assms no show ?thesis
      by (simp add: crystal_from_vector_matching_heap_def crystal_from_vector_matching_def
          observe_def)
  next
    case (Inr zs)
    show ?thesis
    proof (cases "get_nth_best_solution zs 0")
      case None
      with assms Inr no show ?thesis
        by (simp add: crystal_from_vector_matching_heap_def crystal_from_vector_matching_def
            observe_def)
    next
      case (Some best)
      have lt: "?n < next_ref h1" using n1 by simp
      obtain h7 where sb: "store_best_match to_euler best ?n h1 = (Suc ?n, h7)"
        and c7: "cells h7 ?n = Some (ResultArray (Some (phase_index best))
                                  (Some (to_euler (rotation_matrix best))) None)"
                "cells h7 (Suc ?n) = Some (DictObj (base_metrics best))"
        using store_best_match_effect [OF c1 lt, of to_euler best] n1
        by (cases "store_best_match to_euler best ?n h1") simp
      obtain out h8 where srh: "second_references_heap zs best (Suc ?n) h7 = (out, h8)"
        by (cases "second_references_heap zs best (Suc ?n) h7")
      from second_references_heap_fst [of zs best "Suc ?n" h7 "base_metrics best"] srh
      have out: "out = map_sum id snd (reliability_references zs best (base_metrics best))"
        by simp
      show ?thesis
      proof (cases "reliability_references zs best (base_metrics best)")
        case (Inl e)
        with out srh sb no assms Inr Some show ?thesis
          by (simp add: crystal_from_vector_matching_heap_def crystal_from_vector_matching_def
              observe_def)
      next
        case rr: (Inr ms)
        obtain m' s where ms: "ms = (m', s)" by (cases ms)
        from second_references_heap_cells [OF c7(2) rr [unfolded ms]] srh
        have c8: "cells h8 = (cells h7)(Suc ?n \<mapsto> DictObj m')" by simp
        show ?thesis
        proof (cases "orientation_reliability best s")
          case (Inl e)
          with out srh sb no assms Inr Some rr ms show ?thesis
            by (simp add: crystal_from_vector_matching_heap_def
                crystal_from_vector_matching_def observe_def)
        next
          case r: (Inr r)
          with out srh sb no assms Inr Some rr ms c8 c7 show ?thesis
            by (simp add: crystal_from_vector_matching_heap_def
                crystal_from_vector_matching_def observe_def update_object_def
                store_orientation_reliability_def result_contents_def)
        qed
      qed
    qed
  qed
qed

lemma update_object_frame:
  "next_ref (update_object d f h) = next_ref h"
  "r \<noteq> d \<Longrightarrow> cells (update_object d f h) r = cells h r"
  by (simp_all add: update_object_def split: option.splits)

lemma store_best_match_frame:
  "next_ref (snd (store_best_match to_euler best res h)) = Suc (next_ref h)"
  "r \<noteq> res \<Longrightarrow> r < next_ref h \<Longrightarrow>
     cells (snd (store_best_match to_euler best res h)) r = cells h r"
  "fst (store_best_match to_euler best res h) = next_ref h"
  by (simp_all add: store_best_match_def new_object_def Let_def update_object_frame)

lemma store_orientation_reliability_frame:
  "next_ref (store_orientation_reliability res d v h) = next_ref h"
  "r \<noteq> res \<Longrightarrow> r \<noteq> d \<Longrightarrow> cells (store_orientation_reliability res d v h) r = cells h r"
  by (simp_all add: store_orientation_reliability_def Let_def update_object_frame)

lemma heap_frame:
  "next_ref h \<le> next_ref (snd (crystal_from_vector_matching_heap to_euler z_ref h))
   \<and> (\<forall>r<next_ref h.
        cells (snd (crystal_from_vector_matching_heap to_euler z_ref h)) r = cells h r)"
proof -
  let ?n = "next_ref h"
  obtain h1 where no: "new_object (ResultArray None None None) h = (?n, h1)"
    and n1: "next_ref h1 = Suc ?n" and f1: "\<forall>r<?n. cells h1 r = cells h r"
    by (simp add: new_object_def)
  show ?thesis
  proof (cases "\<exists>zm. cells h z_ref = Some (NdArray zm)")
    case False
    then show ?thesis
      by (auto simp add: crystal_from_vector_matching_heap_def
          split: option.splits heap_obj.splits)
  next
    case True
    then obtain zm where zm: "cells h z_ref = Some (NdArray zm)" by blast
    show ?thesis
    proof (cases "candidates_of (unwrap_single zm)")
      case (Inl e)
      with zm no n1 f1 show ?thesis
        by (simp add: crystal_from_vector_matching_heap_def)
    next
      case (Inr zs)
      show ?thesis
      proof (cases "get_nth_best_solution zs 0")
        case None
        with zm Inr no n1 f1 show ?thesis
          by (simp add: crystal_from_vector_matching_heap_def)
      next
        case (Some best)
        obtain h7 where sb: "store_best_match to_euler best ?n h1 = (Suc ?n, h7)"
          and n7: "next_ref h7 = Suc (Suc ?n)" and f7: "\<forall>r<?n. cells h7 r = cells h r"
          using store_best_match_frame [where to_euler = to_euler and best = best and res = ?n and h = h1]
            n1 f1
          by (cases "store_best_match to_euler best ?n h1") simp
        obtain out h8 where srh: "second_references_heap zs best (Suc ?n) h7 = (out, h8)"
          by (cases "second_references_heap zs best (Suc ?n) h7")
        with second_references_heap_frame [where zs = zs and best = best and d = "Suc ?n" and h = h7]
          n7 f7
        have n8: "next_ref h8 = Suc (Suc ?n)" and f8: "\<forall>r<?n. cells h8 r = cells h r"
          by simp_all
        from zm Inr Some no sb srh n8 f8 show ?thesis
          by (auto simp add: crystal_from_vector_matching_heap_def
              store_orientation_reliability_frame split: sum.splits)
      qed
    qed
  qed
qed

text \<open>
  Claim C9: the reducer is deterministic and stateless. For an array that exists in the
  heap, a second call on the same array in the heap the first call has left gives the
  identical result (the same failure, or the same phase, Euler angles and dictionary
  contents), which is the value of \<open>crystal_from_vector_matching\<close> on the candidates;
  neither call changes an object that existed before it; and a call in any other heap,
  at any reference holding the same candidates, gives that result too.
\<close>

theorem reducer_deterministic_stateless:
  assumes "cells h z_ref = Some (NdArray z_matches)" and "z_ref < next_ref h"
  shows "observe (crystal_from_vector_matching_heap to_euler z_ref
                    (snd (crystal_from_vector_matching_heap to_euler z_ref h)))
           = observe (crystal_from_vector_matching_heap to_euler z_ref h)
         \<and> observe (crystal_from_vector_matching_heap to_euler z_ref h)
           = Some (crystal_from_vector_matching to_euler z_matches)
         \<and> (\<forall>r<next_ref h.
              cells (snd (crystal_from_vector_matching_heap to_euler z_ref h)) r = cells h r)
         \<and> (\<forall>r<next_ref h.
              cells (snd (crystal_from_vector_matching_heap to_euler z_ref
                       (snd (crystal_from_vector_matching_heap to_euler z_ref h)))) r
              = cells h r)
         \<and> (cells h' z_ref' = Some (NdArray z_matches) \<longrightarrow>
              observe (crystal_from_vector_matching_heap to_euler z_ref' h')
              = observe (crystal_from_vector_matching_heap to_euler z_ref h))"
proof -
  let ?h1 = "snd (crystal_from_vector_matching_heap to_euler z_ref h)"
  note f1 = heap_frame [of h to_euler z_ref]
  note f2 = heap_frame [of ?h1 to_euler z_ref]
  from f1 assms have z1: "cells ?h1 z_ref = Some (NdArray z_matches)" by simp
  have a: "observe (crystal_from_vector_matching_heap to_euler z_ref ?h1)
           = observe (crystal_from_vector_matching_heap to_euler z_ref h)"
    using heap_refines_reducer [OF z1] heap_refines_reducer [OF assms(1)] by simp
  have d: "\<forall>r<next_ref h.
      cells (snd (crystal_from_vector_matching_heap to_euler z_ref ?h1)) r = cells h r"
  proof (intro allI impI)
    fix r assume r: "r < next_ref h"
    with f1 have "r < next_ref ?h1" by simp
    with f2 have "cells (snd (crystal_from_vector_matching_heap to_euler z_ref ?h1)) r
                  = cells ?h1 r" by simp
    with f1 r show "cells (snd (crystal_from_vector_matching_heap to_euler z_ref ?h1)) r
                    = cells h r" by simp
  qed
  have e: "cells h' z_ref' = Some (NdArray z_matches) \<longrightarrow>
      observe (crystal_from_vector_matching_heap to_euler z_ref' h')
      = observe (crystal_from_vector_matching_heap to_euler z_ref h)"
    using heap_refines_reducer [of h' z_ref' z_matches to_euler]
      heap_refines_reducer [OF assms(1), of to_euler] by simp
  from a heap_refines_reducer [OF assms(1), of to_euler] f1 d e show ?thesis by blast
qed

text \<open>
  A heap with the array alone, and another heap with the same array at another reference
  beside a dictionary.
\<close>

theorem reducer_deterministic_stateless_witness:
  "observe (crystal_from_vector_matching_heap (\<lambda>R. R) 0
      (snd (crystal_from_vector_matching_heap (\<lambda>R. R) 0
         \<lparr>cells = [0 \<mapsto> NdArray [Candidate (OrientationResult 0 () 1 [] (1/10)),
                                  Candidate (OrientationResult 0 () 1 [] (3/10))]],
          next_ref = 1\<rparr>)))
   = Some (Inr (0, (), (base_metrics (OrientationResult 0 () 1 [] (1/10)))
                          (''orientation_reliability'' \<mapsto> Num (200/3))))
   \<and> observe (crystal_from_vector_matching_heap (\<lambda>R. R) 5
        \<lparr>cells = [5 \<mapsto> NdArray [Candidate (OrientationResult 0 () 1 [] (1/10)),
                                 Candidate (OrientationResult 0 () 1 [] (3/10))],
                   2 \<mapsto> DictObj Map.empty],
         next_ref = 6\<rparr>)
     = Some (Inr (0, (), (base_metrics (OrientationResult 0 () 1 [] (1/10)))
                          (''orientation_reliability'' \<mapsto> Num (200/3))))
   \<and> cells (snd (crystal_from_vector_matching_heap (\<lambda>R. R) 0
         \<lparr>cells = [0 \<mapsto> NdArray [Candidate (OrientationResult 0 () 1 [] (1/10)),
                                  Candidate (OrientationResult 0 () 1 [] (3/10))]],
          next_ref = 1\<rparr>)) 0
     = Some (NdArray [Candidate (OrientationResult 0 () 1 [] (1/10)),
                      Candidate (OrientationResult 0 () 1 [] (3/10))])"
proof -
  let ?zs = "[Candidate (OrientationResult 0 () 1 [] (1/10)),
              Candidate (OrientationResult 0 () 1 [] (3/10))] :: unit pyobj list"
  let ?h = "\<lparr>cells = [0 \<mapsto> NdArray ?zs], next_ref = 1\<rparr> :: (unit, unit) pyheap"
  let ?h' = "\<lparr>cells = [5 \<mapsto> NdArray ?zs, 2 \<mapsto> DictObj Map.empty], next_ref = 6\<rparr>
               :: (unit, unit) pyheap"
  have h1: "cells ?h 0 = Some (NdArray ?zs)" by simp
  have h2: "(0::nat) < next_ref ?h" by simp
  have h3: "cells ?h' 5 = Some (NdArray ?zs)" by simp
  have v: "crystal_from_vector_matching (\<lambda>R. R) ?zs
           = Inr (0, (), (base_metrics (OrientationResult 0 () 1 [] (1/10)))
                          (''orientation_reliability'' \<mapsto> Num (200/3)))"
    by (simp add: reducer_defs)
  from reducer_deterministic_stateless
         [OF h1 h2, where to_euler = "\<lambda>R. R" and h' = ?h' and z_ref' = 5] h3 v h1
  show ?thesis by simp
qed

section \<open>Properties of the template matching path\<close>

lemma argmax_list_props:
  "xs \<noteq> [] \<Longrightarrow>
     argmax_list xs < length xs
     \<and> (\<forall>k<length xs. xs ! k \<le> xs ! argmax_list xs)
     \<and> (\<forall>k<argmax_list xs. xs ! k < xs ! argmax_list xs)"
proof (induction xs rule: argmax_list.induct)
  case 1
  then show ?case by simp
next
  case (2 v)
  then show ?case by simp
next
  case (3 v w ws)
  let ?j = "argmax_list (w # ws)"
  from 3 have ih: "?j < length (w # ws)"
    "\<forall>k<length (w # ws). (w # ws) ! k \<le> (w # ws) ! ?j"
    "\<forall>k<?j. (w # ws) ! k < (w # ws) ! ?j"
    by simp_all
  show ?case
  proof (cases "(w # ws) ! ?j \<le> v")
    case True
    have "\<forall>k<length (v # w # ws). (v # w # ws) ! k \<le> v"
    proof (intro allI impI)
      fix k assume k: "k < length (v # w # ws)"
      show "(v # w # ws) ! k \<le> v"
      proof (cases k)
        case 0
        then show ?thesis by simp
      next
        case (Suc k')
        with k ih(2) have "(w # ws) ! k' \<le> (w # ws) ! ?j" by simp
        with True Suc show ?thesis by simp
      qed
    qed
    with True show ?thesis by (simp add: Let_def)
  next
    case False
    then have lt: "v < (w # ws) ! ?j" by simp
    have a: "\<forall>k<length (v # w # ws). (v # w # ws) ! k \<le> (w # ws) ! ?j"
    proof (intro allI impI)
      fix k assume k: "k < length (v # w # ws)"
      show "(v # w # ws) ! k \<le> (w # ws) ! ?j"
      proof (cases k)
        case 0
        with lt show ?thesis by simp
      next
        case (Suc k')
        with k ih(2) show ?thesis by simp
      qed
    qed
    have b: "\<forall>k<Suc ?j. (v # w # ws) ! k < (w # ws) ! ?j"
    proof (intro allI impI)
      fix k assume k: "k < Suc ?j"
      show "(v # w # ws) ! k < (w # ws) ! ?j"
      proof (cases k)
        case 0
        with lt show ?thesis by simp
      next
        case (Suc k')
        with k ih(3) show ?thesis by simp
      qed
    qed
    from False ih(1) a b show ?thesis by (simp add: Let_def)
  qed
qed

text \<open>
  Claim C7: for an array of shape \<open>(5, n)\<close> with rows phase, alpha, beta, gamma, score
  and at least one column, \<^verbatim>\<open>_get_best_match\<close> returns the whole column of five entries
  at the first index \<open>j\<close> where the score row is greatest.
\<close>

theorem get_best_match_max_column:
  assumes "length z = 5" and "\<forall>row\<in>set z. length row = n" and "0 < n"
  shows "\<exists>j<n. get_best_match z = Inr [z ! 0 ! j, z ! 1 ! j, z ! 2 ! j, z ! 3 ! j, z ! 4 ! j]
           \<and> (\<forall>k<n. z ! 4 ! k \<le> z ! 4 ! j)
           \<and> (\<forall>k<j. z ! 4 ! k < z ! 4 ! j)"
proof -
  from assms(1) obtain a b c d e where z: "z = [a, b, c, d, e]"
    by (auto simp add: eval_nat_numeral length_Suc_conv)
  with assms(2,3) have e: "e \<noteq> []" "length e = n" by auto
  from argmax_list_props [OF e(1)] e z show ?thesis
    by (intro exI [of _ "argmax_list e"]) (simp add: get_best_match_def np_argmax_def)
qed

text \<open>
  Scenario C of the specification: with the score row \<open>[0.8, 0.95]\<close> the selector
  returns column 1.
\<close>

theorem get_best_match_max_column_witness:
  "get_best_match [[0, 1], [10, 20], [5, 15], [1, 2], [8/10, 95/100]]
     = Inr [1, 20, 15, 2, 95/100]"
proof -
  let ?z = "[[0, 1], [10, 20], [5, 15], [1, 2], [8/10, 95/100]] :: real list list"
  have h1: "length ?z = 5" by simp
  have h2: "\<forall>row\<in>set ?z. length row = 2" by simp
  have h3: "(0::nat) < 2" by simp
  from get_best_match_max_column [OF h1 h2 h3]
  obtain j where j: "j < 2"
    "get_best_match ?z = Inr [?z ! 0 ! j, ?z ! 1 ! j, ?z ! 2 ! j, ?z ! 3 ! j, ?z ! 4 ! j]"
    "\<forall>k<2. ?z ! 4 ! k \<le> ?z ! 4 ! j"
    by blast
  have "(1::nat) < 2" by simp
  with j(3) have "?z ! 4 ! 1 \<le> ?z ! 4 ! j" by blast
  with j(1) have "j = 1" by (cases "j = 0") auto
  with j(2) show ?thesis by simp
qed

lemma length_concat_rows:
  "length (concat (map (\<lambda>r. map (f r) [0..<w]) [0..<h])) = h * w"
  by (induction h) simp_all

lemma nth_concat_rows:
  assumes "x < w" and "y < h"
  shows "concat (map (\<lambda>r. map (f r) [0..<w]) [0..<h]) ! (y * w + x) = f y x"
  using assms(2)
proof (induction h)
  case 0
  then show ?case by simp
next
  case (Suc h)
  show ?case
  proof (cases "y < h")
    case True
    then have "Suc y \<le> h" by simp
    then have "Suc y * w \<le> h * w" by (rule mult_le_mono1)
    with assms(1) have "y * w + x < h * w" by simp
    with Suc.IH [OF True] show ?thesis
      by (simp add: nth_append length_concat_rows)
  next
    case False
    with Suc.prems have "y = h" by simp
    with assms(1) show ?thesis
      by (simp add: nth_append length_concat_rows)
  qed
qed

lemma navigation_placements_nth:
  assumes "x < W" and "y < H"
  shows "fst (navigation_placements (H, W)) ! (y * W + x) = x"
    and "snd (navigation_placements (H, W)) ! (y * W + x) = y"
  using nth_concat_rows [OF assms, of "\<lambda>r c. c"] nth_concat_rows [OF assms, of "\<lambda>r c. r"]
  by (simp_all add: navigation_placements_def np_indices_def flatten_def)

lemma navigation_placements_length:
  "length (fst (navigation_placements (H, W))) = H * W"
  "length (snd (navigation_placements (H, W))) = H * W"
  using length_concat_rows [of "\<lambda>r c. c" W H] length_concat_rows [of "\<lambda>r c. r" W H]
  by (simp_all add: navigation_placements_def np_indices_def flatten_def)

lemma map_positions_total:
  assumes "\<forall>p\<in>set ps. \<exists>v. f p = Inr v"
  shows "\<exists>vs. map_positions f ps = Inr vs"
  using assms
proof (induction ps)
  case Nil
  then show ?case by simp
next
  case (Cons p ps)
  then obtain v vs where "f p = Inr v" "map_positions f ps = Inr vs" by auto
  then show ?case by simp
qed

lemma get_best_match_total:
  assumes "z \<noteq> []" and "last z \<noteq> []"
  shows "\<exists>v. get_best_match z = Inr v"
  using assms by (simp add: get_best_match_def np_argmax_def)

text \<open>
  Claim C6: for a scan of height \<open>H\<close> and width \<open>W\<close> whose positions all hold at least
  one match, \<^verbatim>\<open>to_crystal_map\<close> returns a map whose coordinate arrays have \<open>H * W\<close>
  entries and hold, at the flattened index \<open>y * W + x\<close>, the column \<open>x\<close> in the x-array
  and the row \<open>y\<close> in the y-array; the arrays are those of the scan shape alone.
\<close>

theorem to_crystal_map_coordinates:
  assumes "\<forall>z\<in>set (positions data). z \<noteq> [] \<and> last z \<noteq> []"
    and "nav_shape data = (H, W)"
    and "x < W" and "y < H"
  shows "\<exists>cm. to_crystal_map from_euler data = Inr cm
           \<and> cm_x cm ! (y * W + x) = x \<and> cm_y cm ! (y * W + x) = y
           \<and> length (cm_x cm) = H * W \<and> length (cm_y cm) = H * W
           \<and> cm_x cm = fst (navigation_placements (H, W))
           \<and> cm_y cm = snd (navigation_placements (H, W))"
proof -
  from assms(1) have "\<forall>z\<in>set (positions data). \<exists>v. get_best_match z = Inr v"
    using get_best_match_total by blast
  then obtain vs where vs: "map_positions get_best_match (positions data) = Inr vs"
    using map_positions_total by blast
  with assms(2) obtain cm where cm: "to_crystal_map from_euler data = Inr cm"
    "cm_x cm = fst (navigation_placements (H, W))"
    "cm_y cm = snd (navigation_placements (H, W))"
    by (simp add: to_crystal_map_def map_signal_def Let_def)
  with navigation_placements_nth [OF assms(3,4)] navigation_placements_length [of H W]
  show ?thesis by simp
qed

text \<open>A scan of two rows and three columns; the position of row 1 and column 2.\<close>

theorem to_crystal_map_coordinates_witness:
  "\<exists>cm. to_crystal_map (\<lambda>e. e)
      \<lparr>nav_shape = (2, 3),
       positions = replicate 6 [[0, 1], [10, 20], [5, 15], [1, 2], [8/10, 95/100]]\<rparr> = Inr cm
     \<and> cm_x cm = [0, 1, 2, 0, 1, 2] \<and> cm_y cm = [0, 0, 0, 1, 1, 1]
     \<and> cm_x cm ! (1 * 3 + 2) = 2 \<and> cm_y cm ! (1 * 3 + 2) = 1"
proof -
  let ?d = "\<lparr>nav_shape = (2, 3),
       positions = replicate 6 [[0, 1], [10, 20], [5, 15], [1, 2], [8/10, 95/100::real]]\<rparr>"
  have h1: "\<forall>z\<in>set (positions ?d). z \<noteq> [] \<and> last z \<noteq> []" by simp
  have h2: "nav_shape ?d = (2, 3)" by simp
  have h3: "(2::nat) < 3" by simp
  have h4: "(1::nat) < 2" by simp
  have n: "fst (navigation_placements (2, 3)) = [0, 1, 2, 0, 1, 2]"
    "snd (navigation_placements (2, 3)) = [0, 0, 0, 1, 1, 1]"
    by (simp_all add: navigation_placements_def np_indices_def flatten_def upt_rec)
  from to_crystal_map_coordinates [OF h1 h2 h3 h4, of "\<lambda>e. e"] n
  show ?thesis by auto
qed

section \<open>Properties of the vector matching results\<close>

text \<open>
  Claim C5: \<^verbatim>\<open>VectorMatchingResults.to_crystal_map\<close> fails on every input with the
  error \<^verbatim>\<open>ValueError("Currently under development")\<close>; the result depends neither on
  the data nor on the statements behind the \<^verbatim>\<open>raise\<close>, none of which runs.
\<close>

theorem vector_to_crystal_map_unsupported:
  "vector_to_crystal_map to_euler assemble self
     = Inl (ValueError ''Currently under development'')"
  by (simp add: vector_to_crystal_map_def raise_def)

text \<open>
  Claim C8: with \<^verbatim>\<open>overwrite\<close> being \<^verbatim>\<open>False\<close> and \<^verbatim>\<open>vectors.hkls\<close> set, the call
  leaves every object as it is, issues the one warning and returns; with \<^verbatim>\<open>overwrite\<close>
  being \<^verbatim>\<open>True\<close> it stores \<^verbatim>\<open>self.hkls\<close> in \<^verbatim>\<open>vectors.hkls\<close> whatever both are.
  The function has no failing branch and reads nothing else of either object.
\<close>

theorem get_indexed_diffraction_vectors_overwrite:
  "(hkls (heap w vectors) \<noteq> None \<longrightarrow>
      get_indexed_diffraction_vectors self_hkls w vectors PyFalse
        = (vectors, w\<lparr>warnings := warnings w @ [hkls_warning]\<rparr>)
      \<and> heap (snd (get_indexed_diffraction_vectors self_hkls w vectors PyFalse)) = heap w)
   \<and> get_indexed_diffraction_vectors self_hkls w vectors PyTrue
        = (vectors, w\<lparr>heap := (heap w)(vectors := (heap w vectors)\<lparr>hkls := self_hkls\<rparr>)\<rparr>)
   \<and> hkls (heap (snd (get_indexed_diffraction_vectors self_hkls w vectors PyTrue)) vectors)
        = self_hkls"
  by (simp add: get_indexed_diffraction_vectors_def)

text \<open>A target that carries an assignment already, called with the default.\<close>

theorem get_indexed_diffraction_vectors_overwrite_witness:
  "get_indexed_diffraction_vectors (Some (2::nat))
      \<lparr>heap = (\<lambda>r. \<lparr>hkls = Some 1\<rparr>), warnings = []\<rparr> 0 PyFalse
     = (0, \<lparr>heap = (\<lambda>r. \<lparr>hkls = Some 1\<rparr>), warnings = [hkls_warning]\<rparr>)"
proof -
  let ?w = "\<lparr>heap = (\<lambda>r. \<lparr>hkls = Some (1::nat)\<rparr>), warnings = []\<rparr>"
  have h: "hkls (heap ?w 0) \<noteq> None" by simp
  from get_indexed_diffraction_vectors_overwrite [of ?w 0 "Some 2"] h
  show ?thesis by simp
qed

text \<open>
  Claim C10: with \<^verbatim>\<open>overwrite\<close> being \<^verbatim>\<open>False\<close> and \<^verbatim>\<open>vectors.hkls\<close> being
  \<^verbatim>\<open>None\<close>, the call stores \<^verbatim>\<open>self.hkls\<close> in \<^verbatim>\<open>vectors.hkls\<close> without a warning;
  and whatever \<^verbatim>\<open>overwrite\<close> is, the call returns the reference it was given and
  changes no other object.
\<close>

theorem get_indexed_diffraction_vectors_assigns_and_returns_argument:
  "(hkls (heap w vectors) = None \<longrightarrow>
      hkls (heap (snd (get_indexed_diffraction_vectors self_hkls w vectors PyFalse)) vectors)
        = self_hkls
      \<and> warnings (snd (get_indexed_diffraction_vectors self_hkls w vectors PyFalse))
        = warnings w)
   \<and> fst (get_indexed_diffraction_vectors self_hkls w vectors overwrite) = vectors
   \<and> (\<forall>u. u \<noteq> vectors \<longrightarrow>
        heap (snd (get_indexed_diffraction_vectors self_hkls w vectors overwrite)) u
        = heap w u)"
  by (simp add: get_indexed_diffraction_vectors_def)

text \<open>A target without an assignment, called with the default.\<close>

theorem get_indexed_diffraction_vectors_assigns_and_returns_argument_witness:
  "hkls (heap (snd (get_indexed_diffraction_vectors (Some (2::nat))
      \<lparr>heap = (\<lambda>r. \<lparr>hkls = None\<rparr>), warnings = []\<rparr> 0 PyFalse)) 0) = Some 2
   \<and> fst (get_indexed_diffraction_vectors (Some (2::nat))
      \<lparr>heap = (\<lambda>r. \<lparr>hkls = None\<rparr>), warnings = []\<rparr> 0 PyFalse) = 0
   \<and> heap (snd (get_indexed_diffraction_vectors (Some (2::nat))
      \<lparr>heap = (\<lambda>r. \<lparr>hkls = None\<rparr>), warnings = []\<rparr> 0 PyFalse)) 1 = \<lparr>hkls = None\<rparr>"
proof -
  let ?w = "\<lparr>heap = (\<lambda>r. \<lparr>hkls = None :: nat option\<rparr>), warnings = []\<rparr>"
  have h: "hkls (heap ?w 0) = None" by simp
  have u: "(1::nat) \<noteq> 0" by simp
  from get_indexed_diffraction_vectors_assigns_and_returns_argument
      [of ?w 0 "Some 2" PyFalse] h u
  show ?thesis by simp
qed

end
